theory Spec2Isabelle
  imports Complex_Main "HOL-Library.Multiset"
begin

section \<open>JavaScript numbers\<close>

text \<open>
  The calculators of \<^verbatim>\<open>asteroid.ts\<close> take and return JavaScript numbers. A number is
  NaN, one of the two infinities, or a finite value. Finite values are modelled as
  reals and the arithmetic on them is exact: rounding, overflow to an infinity and the
  sign of zero are not modelled. Every comparison of the source has a literal on one
  side, and comparing a finite number with a literal gives the same answer on the
  reals as on the doubles.
\<close>

datatype number = NaN | Fin real | PosInf | NegInf

text \<open>The operator \<^verbatim>\<open>a > b\<close>: false as soon as one side is NaN.\<close>

fun num_gt :: "number \<Rightarrow> number \<Rightarrow> bool" where
  "num_gt NaN b = False"
| "num_gt a NaN = False"
| "num_gt (Fin x) (Fin y) = (y < x)"
| "num_gt PosInf PosInf = False"
| "num_gt PosInf b = True"
| "num_gt NegInf b = False"
| "num_gt (Fin x) PosInf = False"
| "num_gt (Fin x) NegInf = True"

text \<open>The operator \<^verbatim>\<open>a < b\<close>.\<close>

definition num_lt :: "number \<Rightarrow> number \<Rightarrow> bool" where
  "num_lt a b = num_gt b a"

text \<open>The operator \<^verbatim>\<open>a <= b\<close>: false as soon as one side is NaN.\<close>

definition num_le :: "number \<Rightarrow> number \<Rightarrow> bool" where
  "num_le a b = (a \<noteq> NaN \<and> b \<noteq> NaN \<and> \<not> num_gt a b)"

text \<open>The sign of a number: 1, -1, or 0 for zero and for NaN.\<close>

fun num_sign :: "number \<Rightarrow> int" where
  "num_sign NaN = 0"
| "num_sign (Fin x) = (if 0 < x then 1 else if x < 0 then - 1 else 0)"
| "num_sign PosInf = 1"
| "num_sign NegInf = - 1"

definition inf_of_sign :: "int \<Rightarrow> number" where
  "inf_of_sign s = (if s = 0 then NaN else if 0 < s then PosInf else NegInf)"

text \<open>The operator \<^verbatim>\<open>a * b\<close>: an infinity times zero is NaN.\<close>

fun num_mul :: "number \<Rightarrow> number \<Rightarrow> number" where
  "num_mul NaN b = NaN"
| "num_mul a NaN = NaN"
| "num_mul (Fin x) (Fin y) = Fin (x * y)"
| "num_mul a b = inf_of_sign (num_sign a * num_sign b)"

text \<open>
  The operator \<^verbatim>\<open>a / b\<close>. The source divides by positive literals only; a zero
  divisor is taken as positive zero.
\<close>

fun num_div :: "number \<Rightarrow> number \<Rightarrow> number" where
  "num_div NaN b = NaN"
| "num_div a NaN = NaN"
| "num_div (Fin x) (Fin y) = (if y = 0 then inf_of_sign (num_sign (Fin x)) else Fin (x / y))"
| "num_div (Fin x) b = Fin 0"
| "num_div a (Fin y) = inf_of_sign (num_sign a * (if y < 0 then - 1 else 1))"
| "num_div a b = NaN"

text \<open>The operator \<^verbatim>\<open>a - b\<close>: the difference of two equal infinities is NaN.\<close>

fun num_sub :: "number \<Rightarrow> number \<Rightarrow> number" where
  "num_sub NaN b = NaN"
| "num_sub a NaN = NaN"
| "num_sub (Fin x) (Fin y) = Fin (x - y)"
| "num_sub (Fin x) PosInf = NegInf"
| "num_sub (Fin x) NegInf = PosInf"
| "num_sub PosInf PosInf = NaN"
| "num_sub PosInf b = PosInf"
| "num_sub NegInf NegInf = NaN"
| "num_sub NegInf b = NegInf"

text \<open>The operator \<^verbatim>\<open>a ** n\<close> for a natural literal \<open>n\<close> (the source uses 2 and 3).\<close>

definition num_pow :: "number \<Rightarrow> nat \<Rightarrow> number" where
  "num_pow a n =
     (if n = 0 then Fin 1
      else case a of
        NaN \<Rightarrow> NaN
      | Fin x \<Rightarrow> Fin (x ^ n)
      | PosInf \<Rightarrow> PosInf
      | NegInf \<Rightarrow> (if even n then PosInf else NegInf))"

text \<open>
  The operator \<^verbatim>\<open>a ** y\<close> for a positive literal \<open>y\<close> that is not an integer (the
  source uses 0.33): NaN on a negative finite base, infinite on both infinities.
\<close>

fun num_powr :: "number \<Rightarrow> real \<Rightarrow> number" where
  "num_powr NaN y = NaN"
| "num_powr (Fin x) y = (if x < 0 then NaN else Fin (x powr y))"
| "num_powr PosInf y = PosInf"
| "num_powr NegInf y = PosInf"

section \<open>The calculation helpers\<close>

definition calculateImpactEnergy :: "number \<Rightarrow> number \<Rightarrow> number" where
  "calculateImpactEnergy diameterKm velocityKmS =
     (let density = Fin 2500;
          radiusM = num_div (num_mul diameterKm (Fin 1000)) (Fin 2);
          volumeM3 = num_mul (num_mul (num_div (Fin 4) (Fin 3)) (Fin pi)) (num_pow radiusM 3);
          massKg = num_mul volumeM3 density;
          velocityMS = num_mul velocityKmS (Fin 1000);
          energyJoules = num_mul (num_mul (Fin 0.5) massKg) (num_pow velocityMS 2);
          megatonsTNT = num_div energyJoules (Fin 4184000000000000)
      in megatonsTNT)"

definition calculateTorinoScale :: "number \<Rightarrow> number \<Rightarrow> bool \<Rightarrow> bool \<Rightarrow> int" where
  "calculateTorinoScale diameterKm energyMegatons isPHA isSentry =
     (if isSentry then
        (if num_gt energyMegatons (Fin 1000000) then 10
         else if num_gt energyMegatons (Fin 100000) then 9
         else if num_gt energyMegatons (Fin 10000) then 8
         else if num_gt energyMegatons (Fin 1000) then 7
         else if num_gt diameterKm (Fin 1) then 4
         else 3)
      else if isPHA then
        (if num_gt energyMegatons (Fin 100000) then 3
         else if num_gt diameterKm (Fin 1) then 2
         else 1)
      else 0)"

definition calculateCraterSize :: "number \<Rightarrow> number \<Rightarrow> number" where
  "calculateCraterSize diameterKm velocityKmS =
     num_mul (num_mul diameterKm (Fin 20)) (num_powr (num_div velocityKmS (Fin 20)) 0.33)"

definition generateRiskZones :: "number \<Rightarrow> bool \<Rightarrow> bool \<Rightarrow> string list" where
  "generateRiskZones energyMegatons isPHA isSentry =
     (if num_gt energyMegatons (Fin 100000) then
        [''Global Extinction Event'', ''Mass Extinction Event'', ''Global Devastation'']
      else if num_gt energyMegatons (Fin 10000) then
        [''Continental Devastation'', ''Global Impact'', ''Multiple Continents'']
      else if num_gt energyMegatons (Fin 1000) then
        [''Regional Damage'', ''Pacific Ocean'', ''Atlantic Ocean'', ''Indian Ocean'']
      else if num_gt energyMegatons (Fin 100) then
        [''Pacific Ocean'', ''Coastal Japan'', ''Western Pacific'']
      else if num_gt energyMegatons (Fin 10) then
        [''Remote Ocean'', ''Central Pacific'', ''North Atlantic'']
      else
        [''Remote Ocean''])"

text \<open>
  The score is a sum of small integer literals, so it is kept as an integer;
  \<^verbatim>\<open>Math.min(score, 10)\<close> is the minimum of two integers.
\<close>

definition calculateImportanceScore ::
  "number \<Rightarrow> number \<Rightarrow> number \<Rightarrow> bool \<Rightarrow> bool \<Rightarrow> int" where
  "calculateImportanceScore diameterKm velocityKmS missDistanceAU isPHA isSentry =
     (let score = 0;
          score = (if num_gt diameterKm (Fin 10) then score + 4
                   else if num_gt diameterKm (Fin 1) then score + 3
                   else if num_gt diameterKm (Fin 0.5) then score + 2
                   else score + 1);
          score = (if num_gt velocityKmS (Fin 25) then score + 2
                   else if num_gt velocityKmS (Fin 15) then score + 1
                   else score);
          score = (if num_lt missDistanceAU (Fin 0.05) then score + 2
                   else if num_lt missDistanceAU (Fin 0.2) then score + 1
                   else score);
          score = (if isSentry then score + 3
                   else if isPHA then score + 2
                   else score)
      in min score 10)"

section \<open>JSON values and coercions\<close>

text \<open>
  The response body is parsed JSON (\<^verbatim>\<open>data: any[]\<close>). An object is a map from
  property names to values; a property that is absent reads as \<^verbatim>\<open>undefined\<close>,
  which is \<open>None\<close> here. Strings are lists of characters.
\<close>

datatype jsval =
    JNull
  | JBool bool
  | JNum number
  | JStr string
  | JArr "jsval list"
  | JObj "string \<Rightarrow> jsval option"

type_synonym obj = "string \<rightharpoonup> jsval"

datatype error = TypeError

text \<open>
  The calculators are typed \<^verbatim>\<open>number\<close> and \<^verbatim>\<open>boolean\<close>, but the fields come
  from an \<^verbatim>\<open>any\<close>, so every arithmetic operator and comparison applies the
  language's ToNumber to its operand and every \<^verbatim>\<open>if\<close> applies ToBoolean.

  ToNumber of an object or of an array first asks the value for a primitive. An object
  made by the JSON parser inherits \<^verbatim>\<open>valueOf\<close>, which returns the object itself, and
  \<^verbatim>\<open>toString\<close>, which returns the string \<^verbatim>\<open>[object Object]\<close>. An own property
  named \<^verbatim>\<open>toString\<close> hides the inherited method and holds a JSON value, which
  cannot be called; then no method gives a primitive and the coercion throws a
  TypeError. An array is joined, which converts every element other than null to a
  string by the same rule.
\<close>

fun to_primitive_throws :: "jsval \<Rightarrow> bool" where
  "to_primitive_throws (JObj m) = (m ''toString'' \<noteq> None)"
| "to_primitive_throws (JArr xs) = list_ex to_primitive_throws xs"
| "to_primitive_throws v = False"

definition coercion_throws :: "jsval option \<Rightarrow> bool" where
  "coercion_throws v = (case v of None \<Rightarrow> False | Some x \<Rightarrow> to_primitive_throws x)"

text \<open>
  The number a value is coerced to when the coercion returns. The string
  \<^verbatim>\<open>[object Object]\<close> is not a number. The number in a string, or in the joined
  elements of an array, is found by the runtime's parser of numeric strings, which is
  not part of this repository: it is the parameter \<open>rt\<close>.
\<close>

type_synonym coercion = "jsval \<Rightarrow> number"

fun number_value :: "coercion \<Rightarrow> jsval option \<Rightarrow> number" where
  "number_value rt None = NaN"
| "number_value rt (Some JNull) = Fin 0"
| "number_value rt (Some (JBool b)) = Fin (if b then 1 else 0)"
| "number_value rt (Some (JNum x)) = x"
| "number_value rt (Some (JObj m)) = NaN"
| "number_value rt (Some v) = rt v"

definition ToNumber :: "coercion \<Rightarrow> jsval option \<Rightarrow> error + number" where
  "ToNumber rt v = (if coercion_throws v then Inl TypeError else Inr (number_value rt v))"

fun ToBoolean :: "jsval option \<Rightarrow> bool" where
  "ToBoolean None = False"
| "ToBoolean (Some JNull) = False"
| "ToBoolean (Some (JBool b)) = b"
| "ToBoolean (Some (JNum x)) = (x \<noteq> NaN \<and> x \<noteq> Fin 0)"
| "ToBoolean (Some (JStr s)) = (s \<noteq> [])"
| "ToBoolean (Some v) = True"

text \<open>The decimal name of an array index.\<close>

fun string_of_nat :: "nat \<Rightarrow> string" where
  "string_of_nat n =
     (if n < 10 then [char_of (48 + n)]
      else string_of_nat (n div 10) @ [char_of (48 + n mod 10)])"

declare string_of_nat.simps [simp del]

definition index_props :: "jsval list \<Rightarrow> obj" where
  "index_props xs = map_of (zip (map string_of_nat [0 ..< length xs]) xs)"

text \<open>
  The own enumerable properties of a value that is not null, which is what the spread
  \<^verbatim>\<open>{...asteroid}\<close> copies: the properties of an object, the indices of an array or
  of a string, nothing for a number or a boolean. None of the five names the callback
  reads is an index or \<^verbatim>\<open>length\<close>, so they read the same from this map as from the
  value itself.
\<close>

fun own_props :: "jsval \<Rightarrow> obj" where
  "own_props (JObj m) = m"
| "own_props (JArr xs) = index_props xs"
| "own_props (JStr s) = index_props (map (\<lambda>c. JStr [c]) s)"
| "own_props v = Map.empty"

section \<open>The enrichment callback of \<^verbatim>\<open>fetchAsteroidData\<close>\<close>

definition integer_value :: "int \<Rightarrow> jsval" where
  "integer_value i = JNum (Fin (of_int i))"

text \<open>
  The callback given to \<^verbatim>\<open>data.map\<close>, once the three numeric fields are coerced:
  the two flags, the five calculators in the order of the source, and the object
  literal, which spreads the raw record first and then sets \<^verbatim>\<open>impact\<close>,
  \<^verbatim>\<open>torino_scale\<close> and \<^verbatim>\<open>importance_score\<close>.
\<close>

definition enriched :: "obj \<Rightarrow> number \<Rightarrow> number \<Rightarrow> number \<Rightarrow> obj" where
  "enriched asteroid diameterKm velocityKmS missDistanceAU =
     (let isPHA = ToBoolean (asteroid ''is_potentially_hazardous_asteroid'');
          isSentry = ToBoolean (asteroid ''is_sentry_object'');
          energyMegatons = calculateImpactEnergy diameterKm velocityKmS;
          torinoScale = calculateTorinoScale diameterKm energyMegatons isPHA isSentry;
          craterKm = calculateCraterSize diameterKm velocityKmS;
          riskZones = generateRiskZones energyMegatons isPHA isSentry;
          importanceScore =
            calculateImportanceScore diameterKm velocityKmS missDistanceAU isPHA isSentry
      in asteroid
           (''impact'' \<mapsto> JObj (Map.empty
              (''energy_megatons'' \<mapsto> JNum energyMegatons,
               ''crater_km'' \<mapsto> JNum craterKm,
               ''risk_zones'' \<mapsto> JArr (map JStr riskZones))),
            ''torino_scale'' \<mapsto> integer_value torinoScale,
            ''importance_score'' \<mapsto> integer_value importanceScore))"

text \<open>
  The callback on the properties of one element. The source coerces a field at each
  use; every one of the three numeric fields is used on every path (the diameter and
  the velocity in \<^verbatim>\<open>calculateImpactEnergy\<close>, the miss distance in
  \<^verbatim>\<open>calculateImportanceScore\<close>), a coercion gives the same result each time, and a
  coercion that throws ends the callback. So the three are coerced here once, in the
  order of their first use.
\<close>

definition enrich :: "coercion \<Rightarrow> obj \<Rightarrow> error + obj" where
  "enrich rt asteroid =
     (case ToNumber rt (asteroid ''estimated_diameter_km_max'') of
        Inl e \<Rightarrow> Inl e
      | Inr diameterKm \<Rightarrow>
     (case ToNumber rt (asteroid ''relative_velocity_km_s'') of
        Inl e \<Rightarrow> Inl e
      | Inr velocityKmS \<Rightarrow>
     (case ToNumber rt (asteroid ''miss_distance_au'') of
        Inl e \<Rightarrow> Inl e
      | Inr missDistanceAU \<Rightarrow>
          Inr (enriched asteroid diameterKm velocityKmS missDistanceAU))))"

text \<open>
  Reading a property of \<^verbatim>\<open>null\<close> throws a TypeError. An exception in the callback
  ends the whole map.
\<close>

fun callback :: "coercion \<Rightarrow> jsval \<Rightarrow> error + obj" where
  "callback rt JNull = Inl TypeError"
| "callback rt v = enrich rt (own_props v)"

fun map_callback :: "coercion \<Rightarrow> jsval list \<Rightarrow> error + obj list" where
  "map_callback rt [] = Inr []"
| "map_callback rt (x # xs) =
     (case callback rt x of
        Inl e \<Rightarrow> Inl e
      | Inr y \<Rightarrow> (case map_callback rt xs of Inl e \<Rightarrow> Inl e | Inr ys \<Rightarrow> Inr (y # ys)))"

section \<open>Sorting\<close>

text \<open>
  \<^verbatim>\<open>Array.prototype.sort\<close> with a comparator. The language requires the sort to be
  stable, and for a consistent comparator that fixes the result: \<open>x\<close> stays before a
  later \<open>y\<close> unless the comparator is positive on \<open>(x, y)\<close>. This is insertion from
  the right, each element passing the elements it compares greater than. An exception
  in the comparator ends the sort.
\<close>

fun insert_sorted :: "('a \<Rightarrow> 'a \<Rightarrow> error + number) \<Rightarrow> 'a \<Rightarrow> 'a list \<Rightarrow> error + 'a list" where
  "insert_sorted cmp x [] = Inr [x]"
| "insert_sorted cmp x (y # ys) =
     (case cmp x y of
        Inl e \<Rightarrow> Inl e
      | Inr c \<Rightarrow>
          if num_gt c (Fin 0)
          then (case insert_sorted cmp x ys of Inl e \<Rightarrow> Inl e | Inr zs \<Rightarrow> Inr (y # zs))
          else Inr (x # y # ys))"

fun js_sort :: "('a \<Rightarrow> 'a \<Rightarrow> error + number) \<Rightarrow> 'a list \<Rightarrow> error + 'a list" where
  "js_sort cmp [] = Inr []"
| "js_sort cmp (x # xs) =
     (case js_sort cmp xs of Inl e \<Rightarrow> Inl e | Inr ys \<Rightarrow> insert_sorted cmp x ys)"

text \<open>
  The comparator \<^verbatim>\<open>(a, b) => b.importance_score - a.importance_score\<close>: the
  subtraction coerces its left operand first.
\<close>

definition compare_importance :: "coercion \<Rightarrow> obj \<Rightarrow> obj \<Rightarrow> error + number" where
  "compare_importance rt a b =
     (case ToNumber rt (b ''importance_score'') of
        Inl e \<Rightarrow> Inl e
      | Inr x \<Rightarrow>
     (case ToNumber rt (a ''importance_score'') of
        Inl e \<Rightarrow> Inl e
      | Inr y \<Rightarrow> Inr (num_sub x y)))"

section \<open>The pipeline\<close>

text \<open>
  Lines 574 to 605 of \<^verbatim>\<open>fetchAsteroidData\<close>: \<^verbatim>\<open>data.map\<close> with the callback, then
  the sort. A body that is not an array has no callable \<^verbatim>\<open>map\<close>, which is a
  TypeError as well.
\<close>

fun enrichAndRank :: "coercion \<Rightarrow> jsval \<Rightarrow> error + obj list" where
  "enrichAndRank rt (JArr xs) =
     (case map_callback rt xs of
        Inl e \<Rightarrow> Inl e
      | Inr enrichedData \<Rightarrow> js_sort (compare_importance rt) enrichedData)"
| "enrichAndRank rt v = Inl TypeError"

section \<open>Notions for stating the properties\<close>

text \<open>
  A record whose three numeric fields coerce without throwing. The two flags are
  read by ToBoolean, which never throws.
\<close>

definition coerces :: "obj \<Rightarrow> bool" where
  "coerces r =
     (\<not> coercion_throws (r ''estimated_diameter_km_max'')
      \<and> \<not> coercion_throws (r ''relative_velocity_km_s'')
      \<and> \<not> coercion_throws (r ''miss_distance_au''))"

text \<open>The enriched record of a raw record whose numeric fields coerce.\<close>

definition enriched_of :: "coercion \<Rightarrow> obj \<Rightarrow> obj" where
  "enriched_of rt r =
     enriched r
       (number_value rt (r ''estimated_diameter_km_max''))
       (number_value rt (r ''relative_velocity_km_s''))
       (number_value rt (r ''miss_distance_au''))"

text \<open>The importance score that an enriched record carries.\<close>

definition importance_of :: "coercion \<Rightarrow> obj \<Rightarrow> number" where
  "importance_of rt a = number_value rt (a ''importance_score'')"

text \<open>The finite value of a number, for stating orderings of finite scores.\<close>

definition finite_part :: "number \<Rightarrow> real" where
  "finite_part n = (case n of Fin x \<Rightarrow> x | _ \<Rightarrow> 0)"

text \<open>The sort key that the comparator induces on records with a finite score.\<close>

definition rank_key :: "coercion \<Rightarrow> obj \<Rightarrow> real" where
  "rank_key rt e = - finite_part (importance_of rt e)"

text \<open>A raw record with the fields the callback reads, for concrete inputs.\<close>

definition raw_record :: "string \<Rightarrow> real \<Rightarrow> real \<Rightarrow> real \<Rightarrow> bool \<Rightarrow> bool \<Rightarrow> obj" where
  "raw_record i d v m pha sentry =
     [''id'' \<mapsto> JStr i,
      ''estimated_diameter_km_max'' \<mapsto> JNum (Fin d),
      ''relative_velocity_km_s'' \<mapsto> JNum (Fin v),
      ''miss_distance_au'' \<mapsto> JNum (Fin m),
      ''is_potentially_hazardous_asteroid'' \<mapsto> JBool pha,
      ''is_sentry_object'' \<mapsto> JBool sentry]"

text \<open>A runtime parser that finds no number in any string, for concrete inputs.\<close>

definition no_parse :: coercion where
  "no_parse v = NaN"

text \<open>A result within a relative tolerance of a target value.\<close>

definition within_tolerance :: "number \<Rightarrow> real \<Rightarrow> real \<Rightarrow> bool" where
  "within_tolerance n target rel =
     (case n of Fin x \<Rightarrow> \<bar>x - target\<bar> \<le> rel * \<bar>target\<bar> | _ \<Rightarrow> False)"

section \<open>The decision table of the hazard scale, as the specification words it\<close>

text \<open>
  A bracket list is scanned in order; the first row whose threshold the energy
  strictly exceeds gives the result, and the fallback applies when no row matches.
\<close>

fun first_bracket :: "(real \<times> 'a) list \<Rightarrow> number \<Rightarrow> 'a \<Rightarrow> 'a" where
  "first_bracket [] e fallback = fallback"
| "first_bracket ((t, v) # rows) e fallback =
     (if num_gt e (Fin t) then v else first_bracket rows e fallback)"

definition sentry_brackets :: "(real \<times> int) list" where
  "sentry_brackets = [(1000000, 10), (100000, 9), (10000, 8), (1000, 7)]"

definition hazardous_brackets :: "(real \<times> int) list" where
  "hazardous_brackets = [(100000, 3)]"

definition torino_table :: "number \<Rightarrow> number \<Rightarrow> bool \<Rightarrow> bool \<Rightarrow> int" where
  "torino_table d e hazardous sentry =
     (if sentry then first_bracket sentry_brackets e (if num_gt d (Fin 1) then 4 else 3)
      else if hazardous then first_bracket hazardous_brackets e (if num_gt d (Fin 1) then 2 else 1)
      else 0)"

section \<open>The label sets of the risk zones, as the specification words them\<close>

definition zone_brackets :: "(real \<times> string list) list" where
  "zone_brackets =
     [(100000, [''Global Extinction Event'', ''Mass Extinction Event'', ''Global Devastation'']),
      (10000, [''Continental Devastation'', ''Global Impact'', ''Multiple Continents'']),
      (1000, [''Regional Damage'', ''Pacific Ocean'', ''Atlantic Ocean'', ''Indian Ocean'']),
      (100, [''Pacific Ocean'', ''Coastal Japan'', ''Western Pacific'']),
      (10, [''Remote Ocean'', ''Central Pacific'', ''North Atlantic''])]"

definition risk_zone_table :: "number \<Rightarrow> string list" where
  "risk_zone_table e = first_bracket zone_brackets e [''Remote Ocean'']"

section \<open>The additive score, as the specification words it\<close>

definition diameter_points :: "number \<Rightarrow> int" where
  "diameter_points d =
     (if num_gt d (Fin 10) then 4 else if num_gt d (Fin 1) then 3
      else if num_gt d (Fin 0.5) then 2 else 1)"

definition velocity_points :: "number \<Rightarrow> int" where
  "velocity_points v = (if num_gt v (Fin 25) then 2 else if num_gt v (Fin 15) then 1 else 0)"

definition proximity_points :: "number \<Rightarrow> int" where
  "proximity_points m = (if num_lt m (Fin 0.05) then 2 else if num_lt m (Fin 0.2) then 1 else 0)"

definition flag_points :: "bool \<Rightarrow> bool \<Rightarrow> int" where
  "flag_points hazardous sentry = (if sentry then 3 else if hazardous then 2 else 0)"

section \<open>Properties of the calculators\<close>

lemma torino_cases:
  "calculateTorinoScale d e p s \<in> {0, 1, 2, 3, 4, 7, 8, 9, 10}"
  by (simp add: calculateTorinoScale_def)

lemma num_gt_trans_lit:
  "num_le a b \<Longrightarrow> num_gt a (Fin t) \<Longrightarrow> num_gt b (Fin t)"
  by (cases a; cases b) (auto simp: num_le_def)

lemma num_gt_lit_mono: "num_gt e (Fin a) \<Longrightarrow> b \<le> a \<Longrightarrow> num_gt e (Fin b)"
  by (cases e) auto

lemma zone_labels_distinct: "distinct (map snd zone_brackets @ [[''Remote Ocean'']])"
  by (simp add: zone_brackets_def)

section \<open>Properties of the pipeline\<close>

lemma ToNumber_returns:
  "\<not> coercion_throws v \<Longrightarrow> ToNumber rt v = Inr (number_value rt v)"
  by (simp add: ToNumber_def)

lemma ToNumber_integer: "ToNumber rt (Some (integer_value i)) = Inr (Fin (of_int i))"
  by (simp add: ToNumber_def coercion_throws_def integer_value_def)

lemma enrich_returns: "coerces r \<Longrightarrow> enrich rt r = Inr (enriched_of rt r)"
  by (simp add: enrich_def coerces_def enriched_of_def ToNumber_returns)

lemma enrich_throws: "\<not> coerces r \<Longrightarrow> enrich rt r = Inl TypeError"
  by (auto simp: enrich_def coerces_def ToNumber_def)

lemma enrich_Inr:
  "enrich rt r = Inr e \<Longrightarrow> coerces r \<and> e = enriched_of rt r"
  using enrich_returns [of r rt] enrich_throws [of r rt] by (cases "coerces r") auto

lemma enriched_importance:
  "enriched r d v m ''importance_score'' =
     Some (integer_value (calculateImportanceScore d v m
       (ToBoolean (r ''is_potentially_hazardous_asteroid''))
       (ToBoolean (r ''is_sentry_object''))))"
  by (simp add: enriched_def Let_def)

lemma enriched_torino:
  "enriched r d v m ''torino_scale'' =
     Some (integer_value (calculateTorinoScale d (calculateImpactEnergy d v)
       (ToBoolean (r ''is_potentially_hazardous_asteroid''))
       (ToBoolean (r ''is_sentry_object''))))"
  by (simp add: enriched_def Let_def)

lemma enriched_impact:
  "enriched r d v m ''impact'' =
     Some (JObj (Map.empty
       (''energy_megatons'' \<mapsto> JNum (calculateImpactEnergy d v),
        ''crater_km'' \<mapsto> JNum (calculateCraterSize d v),
        ''risk_zones'' \<mapsto> JArr (map JStr (generateRiskZones (calculateImpactEnergy d v)
           (ToBoolean (r ''is_potentially_hazardous_asteroid''))
           (ToBoolean (r ''is_sentry_object'')))))))"
  by (simp add: enriched_def Let_def)

lemma enriched_other:
  "k \<noteq> ''impact'' \<Longrightarrow> k \<noteq> ''torino_scale'' \<Longrightarrow> k \<noteq> ''importance_score'' \<Longrightarrow>
   enriched r d v m k = r k"
  by (simp add: enriched_def Let_def)

lemma dom_enriched:
  "dom (enriched r d v m) = dom r \<union> {''impact'', ''torino_scale'', ''importance_score''}"
  by (auto simp: enriched_def Let_def)

lemma score_of_enriched:
  "\<exists>i. enriched_of rt r ''importance_score'' = Some (integer_value i)"
  by (auto simp: enriched_of_def enriched_importance)

lemma map_callback_objects:
  "list_all coerces rs \<Longrightarrow> map_callback rt (map JObj rs) = Inr (map (enriched_of rt) rs)"
  by (induction rs) (simp_all add: enrich_returns)

lemma map_enrich_objects:
  "list_all coerces rs \<Longrightarrow> map (enrich rt) rs = map (\<lambda>r. Inr (enriched_of rt r)) rs"
  by (induction rs) (simp_all add: enrich_returns)

lemma insert_sorted_insort_key:
  "\<forall>y\<in>set ys. \<exists>c. cmp x y = Inr c \<and> num_gt c (Fin 0) = (f y < f x) \<Longrightarrow>
   insert_sorted cmp x ys = Inr (insort_key f x ys)"
  by (induction ys) (auto simp: not_less)

lemma js_sort_sort_key:
  "\<forall>x\<in>set xs. \<forall>y\<in>set xs. \<exists>c. cmp x y = Inr c \<and> num_gt c (Fin 0) = (f y < f x) \<Longrightarrow>
   js_sort cmp xs = Inr (sort_key f xs)"
proof (induction xs)
  case Nil
  show ?case by simp
next
  case (Cons x xs)
  then have ih: "js_sort cmp xs = Inr (sort_key f xs)" by simp
  have "\<forall>y\<in>set (sort_key f xs). \<exists>c. cmp x y = Inr c \<and> num_gt c (Fin 0) = (f y < f x)"
    using Cons.prems by simp
  then have "insert_sorted cmp x (sort_key f xs) = Inr (insort_key f x (sort_key f xs))"
    by (rule insert_sorted_insort_key)
  with ih show ?case by simp
qed

lemma rank_key_score:
  "a ''importance_score'' = Some (integer_value i) \<Longrightarrow> rank_key rt a = - of_int i"
  by (simp add: rank_key_def importance_of_def finite_part_def integer_value_def)

lemma importance_of_score:
  "a ''importance_score'' = Some (integer_value i) \<Longrightarrow> importance_of rt a = Fin (of_int i)"
  by (simp add: importance_of_def integer_value_def)

lemma compare_enriched:
  assumes "\<exists>i. a ''importance_score'' = Some (integer_value i)"
    and "\<exists>j. b ''importance_score'' = Some (integer_value j)"
  shows "\<exists>c. compare_importance rt a b = Inr c \<and> num_gt c (Fin 0) = (rank_key rt b < rank_key rt a)"
proof -
  from assms obtain i j where a: "a ''importance_score'' = Some (integer_value i)"
    and b: "b ''importance_score'' = Some (integer_value j)" by blast
  have "compare_importance rt a b = Inr (Fin (of_int j - of_int i))"
    by (simp add: compare_importance_def a b ToNumber_integer)
  then show ?thesis
    by (simp add: rank_key_score [of a i] rank_key_score [of b j] a b)
qed

lemma rank_enriched:
  "js_sort (compare_importance rt) (map (enriched_of rt) rs) =
   Inr (sort_key (rank_key rt) (map (enriched_of rt) rs))"
  by (rule js_sort_sort_key) (auto intro!: compare_enriched score_of_enriched)

lemma ranked_output:
  "list_all coerces rs \<Longrightarrow>
   enrichAndRank rt (JArr (map JObj rs)) =
     Inr (sort_key (rank_key rt) (map (enriched_of rt) rs))"
  by (simp add: map_callback_objects rank_enriched)

lemma importance_of_enriched:
  "\<exists>i. importance_of rt (enriched_of rt r) = Fin (of_int i)"
  using score_of_enriched [of rt r] importance_of_score by blast

lemma num_le_enriched:
  assumes "\<exists>i. importance_of rt a = Fin (of_int i)" "\<exists>i. importance_of rt b = Fin (of_int i)"
  shows "num_le (importance_of rt b) (importance_of rt a) = (rank_key rt a \<le> rank_key rt b)"
  using assms by (auto simp: num_le_def rank_key_def finite_part_def)

lemma sorted_enriched:
  "sorted_wrt (\<lambda>a b. num_le (importance_of rt b) (importance_of rt a))
     (sort_key (rank_key rt) (map (enriched_of rt) rs))"
proof -
  let ?out = "sort_key (rank_key rt) (map (enriched_of rt) rs)"
  have "sorted (map (rank_key rt) ?out)" by (rule sorted_sort_key)
  then have "sorted_wrt (\<lambda>a b. rank_key rt a \<le> rank_key rt b) ?out"
    by (simp add: sorted_map)
  moreover have "\<forall>a\<in>set ?out. \<exists>i. importance_of rt a = Fin (of_int i)"
    using importance_of_enriched by auto
  ultimately show ?thesis
    by (auto intro!: sorted_wrt_mono_rel [where P = "\<lambda>a b. rank_key rt a \<le> rank_key rt b"]
        simp: num_le_enriched)
qed

lemma stable_enriched:
  "filter (\<lambda>e. importance_of rt e = n) (sort_key (rank_key rt) (map (enriched_of rt) rs)) =
   filter (\<lambda>e. importance_of rt e = n) (map (enriched_of rt) rs)"
proof -
  let ?es = "map (enriched_of rt) rs"
  let ?out = "sort_key (rank_key rt) ?es"
  have fin: "\<forall>a\<in>set ?es. \<exists>i. importance_of rt a = Fin (of_int i)"
    using importance_of_enriched by auto
  show ?thesis
  proof (cases "\<exists>x. n = Fin x")
    case True
    then obtain x where n: "n = Fin x" by blast
    have p: "\<forall>a\<in>set ?es. (importance_of rt a = n) = (rank_key rt a = - x)"
      using fin by (auto simp: n rank_key_def finite_part_def)
    have "filter (\<lambda>e. importance_of rt e = n) ?out = filter (\<lambda>e. rank_key rt e = - x) ?out"
      using p by (intro filter_cong) auto
    also have "\<dots> = filter (\<lambda>e. rank_key rt e = - x) ?es" by (rule sort_key_stable)
    also have "\<dots> = filter (\<lambda>e. importance_of rt e = n) ?es"
      using p by (intro filter_cong) auto
    finally show ?thesis .
  next
    case False
    then have "\<forall>a\<in>set ?es. importance_of rt a \<noteq> n" using fin by auto
    then have "filter (\<lambda>e. importance_of rt e = n) ?out = []"
      and "filter (\<lambda>e. importance_of rt e = n) ?es = []"
      by (auto simp: filter_empty_conv)
    then show ?thesis by simp
  qed
qed

lemma coerces_raw_record: "coerces (raw_record i d v m p s)"
  by (simp add: coerces_def coercion_throws_def raw_record_def)

lemma enriched_of_raw_record:
  "enriched_of rt (raw_record i d v m p s) = enriched (raw_record i d v m p s) (Fin d) (Fin v) (Fin m)"
  by (simp add: enriched_of_def raw_record_def)

lemma score_raw_record:
  "enriched (raw_record i d v m p s) (Fin d) (Fin v) (Fin m) ''importance_score'' =
     Some (integer_value (calculateImportanceScore (Fin d) (Fin v) (Fin m) p s))"
  by (simp add: enriched_importance raw_record_def)

lemma id_raw_record:
  "enriched (raw_record i d v m p s) x y z ''id'' = Some (JStr i)"
  by (simp add: enriched_other raw_record_def)

lemma example_scores:
  "enriched (raw_record i 2 10 1 True False) (Fin 2) (Fin 10) (Fin 1) ''importance_score'' =
     Some (integer_value 5)"
  "enriched (raw_record i 2 30 1 False True) (Fin 2) (Fin 30) (Fin 1) ''importance_score'' =
     Some (integer_value 8)"
  by (simp_all add: score_raw_record calculateImportanceScore_def num_lt_def)

lemma example_ranking:
  "enrichAndRank rt (JArr
      [JObj (raw_record ''a'' 2 10 1 True False),
       JObj (raw_record ''b'' 2 10 1 True False),
       JObj (raw_record ''c'' 2 30 1 False True)]) =
   Inr [enriched (raw_record ''c'' 2 30 1 False True) (Fin 2) (Fin 30) (Fin 1),
        enriched (raw_record ''a'' 2 10 1 True False) (Fin 2) (Fin 10) (Fin 1),
        enriched (raw_record ''b'' 2 10 1 True False) (Fin 2) (Fin 10) (Fin 1)]"
  by (simp add: enrich_returns coerces_raw_record enriched_of_raw_record
      compare_importance_def example_scores ToNumber_integer)

lemma energy_formula:
  "calculateImpactEnergy (Fin d) (Fin v) =
     Fin (0.5 * (4 / 3 * pi * (d * 1000 / 2) ^ 3 * 2500) * (v * 1000) ^ 2 / 4184000000000000)"
  by (simp add: calculateImpactEnergy_def Let_def num_pow_def)

lemma energy_fixture: "calculateImpactEnergy (Fin 1) (Fin 20) = Fin (31250000 * pi / 1569)"
  by (simp add: energy_formula)





section \<open>Bounds on \<open>pi\<close>\<close>

lemma sin_taylor9:
  fixes x :: real
  assumes "0 < x"
  shows "sin x \<le> (x - x^3/6 + x^5/120 - x^7/5040) + x^9 / 362880"
    and "(x - x^3/6 + x^5/120 - x^7/5040) - x^9 / 362880 \<le> sin x"
proof -
  obtain t where t: "sin x = (\<Sum>m<9. sin_coeff m * x ^ m) + (sin (t + 1/2 * real (9::nat) * pi) / fact 9) * x ^ 9"
    using Maclaurin_sin_expansion3 [of 9 x] assms by auto
  have set9: "{..<9::nat} = {0,1,2,3,4,5,6,7,8}" by auto
  have s: "(\<Sum>m<9. sin_coeff m * x ^ m) = x - x^3/6 + x^5/120 - x^7/5040"
    unfolding set9 by (simp add: sin_coeff_def fact_numeral)
  have f: "fact 9 = (362880::real)" by (simp add: fact_numeral)
  define r where "r = sin (t + 1/2 * real (9::nat) * pi)"
  have r: "- 1 \<le> r" "r \<le> 1" by (simp_all add: r_def)
  have x9: "0 \<le> x^9 / 362880" using assms by simp
  have e: "sin x = (x - x^3/6 + x^5/120 - x^7/5040) + r * (x^9 / 362880)"
    unfolding t s f r_def by simp
  have "r * (x^9 / 362880) \<le> 1 * (x^9 / 362880)"
    using r x9 by (intro mult_right_mono) auto
  then show "sin x \<le> (x - x^3/6 + x^5/120 - x^7/5040) + x^9 / 362880"
    unfolding e by simp
  have "(- 1) * (x^9 / 362880) \<le> r * (x^9 / 362880)"
    using r x9 by (intro mult_right_mono) auto
  then show "(x - x^3/6 + x^5/120 - x^7/5040) - x^9 / 362880 \<le> sin x"
    unfolding e by simp
qed

lemma pi_lower: "3.141563 < pi"
proof -
  let ?a = "523594 / 1000000 :: real"
  have "sin ?a \<le> (?a - ?a^3/6 + ?a^5/120 - ?a^7/5040) + ?a^9 / 362880"
    by (rule sin_taylor9) simp
  also have "\<dots> < 1/2" by (simp add: power_divide)
  finally have "sin ?a < sin (pi/6)" by (simp add: sin_30)
  moreover have "?a \<le> pi/2" using pi_ge_two by simp
  moreover have "- (pi/2) \<le> ?a" using pi_ge_zero by linarith
  ultimately have "?a < pi/6"
    using sin_mono_less_eq [of ?a "pi/6"] pi_ge_zero by auto
  then show ?thesis by simp
qed

lemma pi_upper: "pi < 3.141613"
proof -
  let ?b = "523602 / 1000000 :: real"
  have "(?b - ?b^3/6 + ?b^5/120 - ?b^7/5040) - ?b^9 / 362880 \<le> sin ?b"
    by (rule sin_taylor9) simp
  moreover have "1/2 < (?b - ?b^3/6 + ?b^5/120 - ?b^7/5040) - ?b^9 / 362880" by (simp add: power_divide)
  ultimately have "sin (pi/6) < sin ?b" by (simp add: sin_30)
  moreover have "?b \<le> pi/2" using pi_ge_two by simp
  moreover have "- (pi/2) \<le> ?b" using pi_ge_zero by linarith
  ultimately have "pi/6 < ?b"
    using sin_mono_less_eq [of "pi/6" ?b] pi_ge_zero by auto
  then show ?thesis by simp
qed

section \<open>The score as a sum of points\<close>

lemma diameter_step:
  "(if num_gt d (Fin 10) then a + 4
    else if num_gt d (Fin 1) then a + 3
    else if num_gt d (Fin 0.5) then a + 2
    else a + 1) = a + diameter_points d"
  by (simp add: diameter_points_def)

lemma velocity_step:
  "(if num_gt v (Fin 25) then a + 2 else if num_gt v (Fin 15) then a + 1 else a) =
   a + velocity_points v"
  by (simp add: velocity_points_def)

lemma proximity_step:
  "(if num_lt m (Fin 0.05) then a + 2 else if num_lt m (Fin 0.2) then a + 1 else a) =
   a + proximity_points m"
  by (simp add: proximity_points_def)

lemma flag_step:
  "(if s then a + 3 else if p then a + 2 else a) = a + flag_points p s"
  by (simp add: flag_points_def)

lemma importance_sum:
  "calculateImportanceScore d v m p s =
     min (diameter_points d + velocity_points v + proximity_points m + flag_points p s) 10"
  unfolding calculateImportanceScore_def Let_def
    diameter_step velocity_step proximity_step flag_step
  by simp

lemma points_bounds:
  "1 \<le> diameter_points d" "diameter_points d \<le> 4"
  "0 \<le> velocity_points v" "velocity_points v \<le> 2"
  "0 \<le> proximity_points m" "proximity_points m \<le> 2"
  "0 \<le> flag_points p s" "flag_points p s \<le> 3"
  by (simp_all add: diameter_points_def velocity_points_def proximity_points_def
      flag_points_def)

section \<open>Properties stated by the specification\<close>

text \<open>
  C1. For every sequence of raw records whose numeric fields coerce without throwing,
  the pipeline returns the enriched records, all of them, sorted by importance score
  in descending order, and the sort is stable: the records of any one score come out
  in the order they came in. Three records \<open>a\<close>, \<open>b\<close>, \<open>c\<close> with scores 5, 5 and 8
  come out as \<open>c\<close>, \<open>a\<close>, \<open>b\<close>.
\<close>

theorem enrichAndRank_stable_descending:
  "(list_all coerces rs \<longrightarrow>
      map (enrich rt) rs = map (\<lambda>r. Inr (enriched_of rt r)) rs
      \<and> (\<exists>out. enrichAndRank rt (JArr (map JObj rs)) = Inr out
            \<and> mset out = mset (map (enriched_of rt) rs)
            \<and> sorted_wrt (\<lambda>a b. num_le (importance_of rt b) (importance_of rt a)) out
            \<and> (\<forall>n. filter (\<lambda>e. importance_of rt e = n) out =
                     filter (\<lambda>e. importance_of rt e = n) (map (enriched_of rt) rs))))
   \<and> enrich rt (raw_record ''a'' 2 10 1 True False) =
        Inr (enriched (raw_record ''a'' 2 10 1 True False) (Fin 2) (Fin 10) (Fin 1))
   \<and> enrich rt (raw_record ''b'' 2 10 1 True False) =
        Inr (enriched (raw_record ''b'' 2 10 1 True False) (Fin 2) (Fin 10) (Fin 1))
   \<and> enrich rt (raw_record ''c'' 2 30 1 False True) =
        Inr (enriched (raw_record ''c'' 2 30 1 False True) (Fin 2) (Fin 30) (Fin 1))
   \<and> importance_of rt
        (enriched (raw_record ''a'' 2 10 1 True False) (Fin 2) (Fin 10) (Fin 1)) = Fin 5
   \<and> importance_of rt
        (enriched (raw_record ''b'' 2 10 1 True False) (Fin 2) (Fin 10) (Fin 1)) = Fin 5
   \<and> importance_of rt
        (enriched (raw_record ''c'' 2 30 1 False True) (Fin 2) (Fin 30) (Fin 1)) = Fin 8
   \<and> enrichAndRank rt (JArr
        [JObj (raw_record ''a'' 2 10 1 True False),
         JObj (raw_record ''b'' 2 10 1 True False),
         JObj (raw_record ''c'' 2 30 1 False True)]) =
      Inr [enriched (raw_record ''c'' 2 30 1 False True) (Fin 2) (Fin 30) (Fin 1),
           enriched (raw_record ''a'' 2 10 1 True False) (Fin 2) (Fin 10) (Fin 1),
           enriched (raw_record ''b'' 2 10 1 True False) (Fin 2) (Fin 10) (Fin 1)]"
proof -
  let ?out = "sort_key (rank_key rt) (map (enriched_of rt) rs)"
  have general: "map (enrich rt) rs = map (\<lambda>r. Inr (enriched_of rt r)) rs
      \<and> (\<exists>out. enrichAndRank rt (JArr (map JObj rs)) = Inr out
            \<and> mset out = mset (map (enriched_of rt) rs)
            \<and> sorted_wrt (\<lambda>a b. num_le (importance_of rt b) (importance_of rt a)) out
            \<and> (\<forall>n. filter (\<lambda>e. importance_of rt e = n) out =
                     filter (\<lambda>e. importance_of rt e = n) (map (enriched_of rt) rs)))"
    if ok: "list_all coerces rs"
  proof -
    have "enrichAndRank rt (JArr (map JObj rs)) = Inr ?out"
      using ok by (rule ranked_output)
    moreover have "mset ?out = mset (map (enriched_of rt) rs)"
      by simp
    moreover have "sorted_wrt (\<lambda>a b. num_le (importance_of rt b) (importance_of rt a)) ?out"
      by (rule sorted_enriched)
    moreover have "\<forall>n. filter (\<lambda>e. importance_of rt e = n) ?out =
        filter (\<lambda>e. importance_of rt e = n) (map (enriched_of rt) rs)"
      using stable_enriched by blast
    moreover have "map (enrich rt) rs = map (\<lambda>r. Inr (enriched_of rt r)) rs"
      using ok by (rule map_enrich_objects)
    ultimately show ?thesis by blast
  qed
  have returns: "enrich rt (raw_record i d v m p s) =
      Inr (enriched (raw_record i d v m p s) (Fin d) (Fin v) (Fin m))" for i d v m p s
    by (simp add: enrich_returns coerces_raw_record enriched_of_raw_record)
  have a: "importance_of rt
        (enriched (raw_record ''a'' 2 10 1 True False) (Fin 2) (Fin 10) (Fin 1)) = Fin 5"
    and b: "importance_of rt
        (enriched (raw_record ''b'' 2 10 1 True False) (Fin 2) (Fin 10) (Fin 1)) = Fin 5"
    and c: "importance_of rt
        (enriched (raw_record ''c'' 2 30 1 False True) (Fin 2) (Fin 30) (Fin 1)) = Fin 8"
    by (simp_all add: importance_of_def example_scores integer_value_def)
  from general returns a b c example_ranking [of rt] show ?thesis by blast
qed

theorem enrichAndRank_stable_descending_witness:
  "list_all coerces
     [raw_record ''a'' 2 10 1 True False, raw_record ''b'' 2 10 1 True False,
      raw_record ''c'' 2 30 1 False True]
   \<and> (\<exists>out. enrichAndRank no_parse (JArr (map JObj
          [raw_record ''a'' 2 10 1 True False, raw_record ''b'' 2 10 1 True False,
           raw_record ''c'' 2 30 1 False True])) = Inr out
        \<and> mset out = mset (map (enriched_of no_parse)
          [raw_record ''a'' 2 10 1 True False, raw_record ''b'' 2 10 1 True False,
           raw_record ''c'' 2 30 1 False True])
        \<and> sorted_wrt (\<lambda>a b. num_le (importance_of no_parse b) (importance_of no_parse a)) out)"
proof -
  have ok: "list_all coerces
     [raw_record ''a'' 2 10 1 True False, raw_record ''b'' 2 10 1 True False,
      raw_record ''c'' 2 30 1 False True]"
    by (simp add: coerces_raw_record)
  from ok enrichAndRank_stable_descending
    [of "[raw_record ''a'' 2 10 1 True False, raw_record ''b'' 2 10 1 True False,
          raw_record ''c'' 2 30 1 False True]" no_parse]
  show ?thesis by blast
qed




text \<open>
  C3, as the code has it. On finite inputs the energy is the kinetic energy of a
  sphere of density 2500 in megatons, with the divisor 4.184e15; for a diameter of 1
  and a velocity of 20 this is \<open>31250000 * pi / 1569\<close>, which is 6.2572e4 (within a
  hundred-thousandth of 62571.5), not 3.1329e5.
\<close>

theorem impact_energy_fixture:
  "calculateImpactEnergy (Fin d) (Fin v) =
     Fin (0.5 * (4 / 3 * pi * (d * 1000 / 2) ^ 3 * 2500) * (v * 1000) ^ 2 / 4184000000000000)
   \<and> calculateImpactEnergy (Fin 1) (Fin 20) = Fin (31250000 * pi / 1569)
   \<and> within_tolerance (calculateImpactEnergy (Fin 1) (Fin 20)) 62571.5 (1 / 100000)"
proof -
  have "\<bar>31250000 * pi / 1569 - 62571.5\<bar> \<le> 1 / 100000 * \<bar>62571.5 :: real\<bar>"
    using pi_lower pi_upper unfolding abs_le_iff by (simp add: field_simps)
  then have "within_tolerance (calculateImpactEnergy (Fin 1) (Fin 20)) 62571.5 (1 / 100000)"
    by (simp add: energy_fixture within_tolerance_def)
  then show ?thesis using energy_formula energy_fixture by blast
qed

text \<open>
  The value of the specification is not reached even with a tolerance of one half.
\<close>

theorem impact_energy_fixture_refuted:
  "\<not> within_tolerance (calculateImpactEnergy (Fin 1) (Fin 20)) 313290 (1 / 2)"
  using pi_less_4 by (simp add: energy_fixture within_tolerance_def abs_if)

text \<open>
  C4. The hazard scale is the decision table of the specification, its rows checked
  in order with a strict comparison, so that an energy equal to a threshold falls
  into the bracket below: a sentry object with an energy of exactly 1e6 is a 9.
\<close>

theorem torino_decision_table:
  "calculateTorinoScale d e p s = torino_table d e p s
   \<and> calculateTorinoScale d (Fin 1000000) p True = 9
   \<and> calculateTorinoScale d (Fin 100000) p True = 8
   \<and> calculateTorinoScale d (Fin 10000) p True = 7
   \<and> calculateTorinoScale (Fin 1) (Fin 1000) p True = 3
   \<and> calculateTorinoScale (Fin 1) (Fin 100000) True False = 1"
  by (simp add: calculateTorinoScale_def torino_table_def sentry_brackets_def
      hazardous_brackets_def)

text \<open>
  C5. The risk zones are one of six fixed label lists, chosen by the energy
  thresholds 100000, 10000, 1000, 100 and 10 with a strict comparison: above 100000
  the list of the highest bracket, at or below every threshold the single label
  Remote Ocean. The list is never empty.
\<close>

theorem generateRiskZones_table:
  "generateRiskZones e p s = risk_zone_table e
   \<and> generateRiskZones e p s \<in> set (map snd zone_brackets @ [[''Remote Ocean'']])
   \<and> length (map snd zone_brackets @ [[''Remote Ocean'']]) = 6
   \<and> distinct (map snd zone_brackets @ [[''Remote Ocean'']])
   \<and> (num_gt e (Fin 100000) \<longrightarrow> generateRiskZones e p s =
        [''Global Extinction Event'', ''Mass Extinction Event'', ''Global Devastation''])
   \<and> (\<not> num_gt e (Fin 10) \<longrightarrow> generateRiskZones e p s = [''Remote Ocean''])
   \<and> generateRiskZones e p s \<noteq> []"
proof -
  have a: "generateRiskZones e p s = risk_zone_table e"
    by (simp add: generateRiskZones_def risk_zone_table_def zone_brackets_def)
  have b: "generateRiskZones e p s \<in> set (map snd zone_brackets @ [[''Remote Ocean'']])"
    by (simp add: generateRiskZones_def zone_brackets_def)
  have c: "length (map snd zone_brackets @ [[''Remote Ocean'']]) = 6"
    by (simp add: zone_brackets_def)
  have d: "num_gt e (Fin 100000) \<longrightarrow> generateRiskZones e p s =
        [''Global Extinction Event'', ''Mass Extinction Event'', ''Global Devastation'']"
    by (simp add: generateRiskZones_def)
  have f: "\<not> num_gt e (Fin 10) \<longrightarrow> generateRiskZones e p s = [''Remote Ocean'']"
    using num_gt_lit_mono [of e _ 10] by (auto simp add: generateRiskZones_def)
  have g: "generateRiskZones e p s \<noteq> []"
    by (simp add: generateRiskZones_def)
  from a b c d f g zone_labels_distinct show ?thesis by blast
qed

theorem generateRiskZones_table_witness:
  "num_gt (Fin 200000) (Fin 100000)
   \<and> generateRiskZones (Fin 200000) True False =
       [''Global Extinction Event'', ''Mass Extinction Event'', ''Global Devastation'']
   \<and> \<not> num_gt (Fin 10) (Fin 10)
   \<and> generateRiskZones (Fin 10) False True = [''Remote Ocean'']"
proof -
  have above: "num_gt (Fin 200000) (Fin 100000)" by simp
  have below: "\<not> num_gt (Fin 10) (Fin 10)" by simp
  from above below generateRiskZones_table [of "Fin 200000" True False]
    generateRiskZones_table [of "Fin 10" False True]
  show ?thesis by blast
qed

text \<open>
  C6. The two flags have no influence on the risk zones: for one energy, any two
  assignments of the flags give the same list.
\<close>

theorem generateRiskZones_flags_irrelevant:
  "generateRiskZones e p s = generateRiskZones e p' s'"
  by (simp add: generateRiskZones_def)

text \<open>
  C7. For a fixed diameter and fixed flags the hazard scale does not decrease when
  the energy grows.
\<close>

theorem torino_monotone:
  "num_le e1 e2 \<Longrightarrow> calculateTorinoScale d e1 p s \<le> calculateTorinoScale d e2 p s"
  using num_gt_trans_lit [of e1 e2]
  by (auto simp add: calculateTorinoScale_def)

theorem torino_monotone_witness:
  "num_le (Fin 1000000) (Fin 1000001)
   \<and> calculateTorinoScale (Fin 2) (Fin 1000000) False True
       \<le> calculateTorinoScale (Fin 2) (Fin 1000001) False True"
  using torino_monotone [of "Fin 1000000" "Fin 1000001" "Fin 2" False True]
  by (simp add: num_le_def)

text \<open>
  C8. The importance score is an integer between 0 and 10 on every input: it is the
  sum of the diameter, velocity, proximity and flag points, clamped to 10. A diameter
  and a velocity of 1e6 on a close sentry object give exactly 10.
\<close>

theorem importance_bounds:
  "0 \<le> calculateImportanceScore d v m p s
   \<and> calculateImportanceScore d v m p s \<le> 10
   \<and> calculateImportanceScore d v m p s =
       min (diameter_points d + velocity_points v + proximity_points m + flag_points p s) 10
   \<and> calculateImportanceScore (Fin 1000000) (Fin 1000000) (Fin 0) p True = 10"
proof -
  have lo: "0 \<le> calculateImportanceScore d v m p s"
    using points_bounds(1) [of d] points_bounds(3) [of v] points_bounds(5) [of m]
      points_bounds(7) [of p s]
    by (simp add: importance_sum)
  have hi: "calculateImportanceScore d v m p s \<le> 10"
    by (simp add: importance_sum)
  have ex: "calculateImportanceScore (Fin 1000000) (Fin 1000000) (Fin 0) p True = 10"
    by (simp add: importance_sum diameter_points_def velocity_points_def
        proximity_points_def flag_points_def num_lt_def)
  from lo hi ex importance_sum show ?thesis by blast
qed

text \<open>
  C9. When the three numeric fields of a raw record coerce, to \<open>d\<close>, \<open>v\<close> and \<open>m\<close>,
  the callback returns an enriched record on which every field under a name other
  than \<^verbatim>\<open>impact\<close>, \<^verbatim>\<open>torino_scale\<close> and \<^verbatim>\<open>importance_score\<close> is the field of the
  raw record. For a raw record that has no field under these three names, as every
  raw record of the data model, every field of the raw record is on the enriched
  record with the same value. Enrichment adds exactly the three names, and they hold
  the values of the calculators: impact energy, crater size and risk zones under
  \<^verbatim>\<open>impact\<close>, the hazard scale and the importance score.
\<close>

theorem enrich_frame:
  "ToNumber rt (r ''estimated_diameter_km_max'') = Inr d \<Longrightarrow>
   ToNumber rt (r ''relative_velocity_km_s'') = Inr v \<Longrightarrow>
   ToNumber rt (r ''miss_distance_au'') = Inr m \<Longrightarrow>
   \<exists>e. enrich rt r = Inr e
     \<and> (\<forall>k. k \<notin> {''impact'', ''torino_scale'', ''importance_score''} \<longrightarrow> e k = r k)
     \<and> (dom r \<inter> {''impact'', ''torino_scale'', ''importance_score''} = {} \<longrightarrow>
          (\<forall>k x. r k = Some x \<longrightarrow> e k = Some x))
     \<and> dom e = dom r \<union> {''impact'', ''torino_scale'', ''importance_score''}
     \<and> e ''impact'' =
          Some (JObj (Map.empty
            (''energy_megatons'' \<mapsto> JNum (calculateImpactEnergy d v),
             ''crater_km'' \<mapsto> JNum (calculateCraterSize d v),
             ''risk_zones'' \<mapsto> JArr (map JStr (generateRiskZones (calculateImpactEnergy d v)
                (ToBoolean (r ''is_potentially_hazardous_asteroid''))
                (ToBoolean (r ''is_sentry_object'')))))))
     \<and> e ''torino_scale'' =
          Some (integer_value (calculateTorinoScale d (calculateImpactEnergy d v)
            (ToBoolean (r ''is_potentially_hazardous_asteroid''))
            (ToBoolean (r ''is_sentry_object''))))
     \<and> e ''importance_score'' =
          Some (integer_value (calculateImportanceScore d v m
            (ToBoolean (r ''is_potentially_hazardous_asteroid''))
            (ToBoolean (r ''is_sentry_object''))))"
proof -
  assume d: "ToNumber rt (r ''estimated_diameter_km_max'') = Inr d"
    and v: "ToNumber rt (r ''relative_velocity_km_s'') = Inr v"
    and m: "ToNumber rt (r ''miss_distance_au'') = Inr m"
  let ?e = "enriched r d v m"
  have ret: "enrich rt r = Inr ?e"
    by (simp add: enrich_def d v m)
  have other: "\<forall>k. k \<notin> {''impact'', ''torino_scale'', ''importance_score''} \<longrightarrow> ?e k = r k"
    by (simp add: enriched_other)
  have kept: "\<forall>k x. r k = Some x \<longrightarrow> ?e k = Some x"
    if disj: "dom r \<inter> {''impact'', ''torino_scale'', ''importance_score''} = {}"
  proof (intro allI impI)
    fix k x
    assume rk: "r k = Some x"
    then have "k \<in> dom r" by blast
    with disj have "k \<notin> {''impact'', ''torino_scale'', ''importance_score''}" by blast
    with other rk show "?e k = Some x" by simp
  qed
  have frame: "dom r \<inter> {''impact'', ''torino_scale'', ''importance_score''} = {} \<longrightarrow>
      (\<forall>k x. r k = Some x \<longrightarrow> ?e k = Some x)"
    using kept by (rule impI)
  show ?thesis
  proof (intro exI [of _ ?e] conjI)
    show "enrich rt r = Inr ?e" by (rule ret)
    show "\<forall>k. k \<notin> {''impact'', ''torino_scale'', ''importance_score''} \<longrightarrow> ?e k = r k"
      by (rule other)
    show "dom r \<inter> {''impact'', ''torino_scale'', ''importance_score''} = {} \<longrightarrow>
        (\<forall>k x. r k = Some x \<longrightarrow> ?e k = Some x)"
      by (rule frame)
    show "dom ?e = dom r \<union> {''impact'', ''torino_scale'', ''importance_score''}"
      by (rule dom_enriched)
  qed (rule enriched_impact enriched_torino enriched_importance)+
qed

theorem enrich_frame_witness:
  "ToNumber no_parse (raw_record ''a'' 2 10 1 True False ''estimated_diameter_km_max'') = Inr (Fin 2)
   \<and> ToNumber no_parse (raw_record ''a'' 2 10 1 True False ''relative_velocity_km_s'') = Inr (Fin 10)
   \<and> ToNumber no_parse (raw_record ''a'' 2 10 1 True False ''miss_distance_au'') = Inr (Fin 1)
   \<and> ''id'' \<notin> {''impact'', ''torino_scale'', ''importance_score''}
   \<and> dom (raw_record ''a'' 2 10 1 True False) \<inter> {''impact'', ''torino_scale'', ''importance_score''} = {}
   \<and> raw_record ''a'' 2 10 1 True False ''id'' = Some (JStr ''a'')
   \<and> (\<exists>e. enrich no_parse (raw_record ''a'' 2 10 1 True False) = Inr e
         \<and> e ''id'' = Some (JStr ''a'')
         \<and> e ''importance_score'' =
             Some (integer_value (calculateImportanceScore (Fin 2) (Fin 10) (Fin 1)
               (ToBoolean (raw_record ''a'' 2 10 1 True False ''is_potentially_hazardous_asteroid''))
               (ToBoolean (raw_record ''a'' 2 10 1 True False ''is_sentry_object'')))))"
proof -
  let ?r = "raw_record ''a'' 2 10 1 True False"
  have d: "ToNumber no_parse (?r ''estimated_diameter_km_max'') = Inr (Fin 2)"
    and v: "ToNumber no_parse (?r ''relative_velocity_km_s'') = Inr (Fin 10)"
    and m: "ToNumber no_parse (?r ''miss_distance_au'') = Inr (Fin 1)"
    by (simp_all add: ToNumber_def coercion_throws_def raw_record_def)
  have name: "''id'' \<notin> {''impact'', ''torino_scale'', ''importance_score''}"
    by simp
  have disj: "dom ?r \<inter> {''impact'', ''torino_scale'', ''importance_score''} = {}"
    by (simp add: raw_record_def)
  have field: "?r ''id'' = Some (JStr ''a'')"
    by (simp add: raw_record_def)
  have "\<exists>e. enrich no_parse ?r = Inr e
         \<and> e ''id'' = Some (JStr ''a'')
         \<and> e ''importance_score'' =
             Some (integer_value (calculateImportanceScore (Fin 2) (Fin 10) (Fin 1)
               (ToBoolean (?r ''is_potentially_hazardous_asteroid''))
               (ToBoolean (?r ''is_sentry_object''))))"
    using enrich_frame [OF d v m] disj field
    by (elim exE conjE) (intro exI conjI, assumption, simp, assumption)
  with d v m name disj field show ?thesis by (intro conjI)
qed

text \<open>
  C10. The hazard scale is never 5 or 6: the values it takes are exactly 0, 1, 2, 3,
  4, 7, 8, 9 and 10.
\<close>

theorem torino_range:
  "range (\<lambda>(d, e, p, s). calculateTorinoScale d e p s) = {0, 1, 2, 3, 4, 7, 8, 9, 10}
   \<and> calculateTorinoScale d e p s \<noteq> 5 \<and> calculateTorinoScale d e p s \<noteq> 6"
proof -
  let ?f = "\<lambda>(d, e, p, s). calculateTorinoScale d e p s"
  have sub: "range ?f \<subseteq> {0, 1, 2, 3, 4, 7, 8, 9, 10}"
    using torino_cases by auto
  have "0 \<in> range ?f"
    by (rule range_eqI [where x = "(NaN, NaN, False, False)"]) (simp add: calculateTorinoScale_def)
  moreover have "1 \<in> range ?f"
    by (rule range_eqI [where x = "(NaN, NaN, True, False)"]) (simp add: calculateTorinoScale_def)
  moreover have "2 \<in> range ?f"
    by (rule range_eqI [where x = "(Fin 2, NaN, True, False)"]) (simp add: calculateTorinoScale_def)
  moreover have "3 \<in> range ?f"
    by (rule range_eqI [where x = "(NaN, NaN, False, True)"]) (simp add: calculateTorinoScale_def)
  moreover have "4 \<in> range ?f"
    by (rule range_eqI [where x = "(Fin 2, NaN, False, True)"]) (simp add: calculateTorinoScale_def)
  moreover have "7 \<in> range ?f"
    by (rule range_eqI [where x = "(NaN, Fin 1001, False, True)"]) (simp add: calculateTorinoScale_def)
  moreover have "8 \<in> range ?f"
    by (rule range_eqI [where x = "(NaN, Fin 10001, False, True)"]) (simp add: calculateTorinoScale_def)
  moreover have "9 \<in> range ?f"
    by (rule range_eqI [where x = "(NaN, Fin 100001, False, True)"]) (simp add: calculateTorinoScale_def)
  moreover have "10 \<in> range ?f"
    by (rule range_eqI [where x = "(NaN, Fin 1000001, False, True)"]) (simp add: calculateTorinoScale_def)
  ultimately have "range ?f = {0, 1, 2, 3, 4, 7, 8, 9, 10}"
    using sub by blast
  moreover have "calculateTorinoScale d e p s \<noteq> 5 \<and> calculateTorinoScale d e p s \<noteq> 6"
    using torino_cases [of d e p s] by auto
  ultimately show ?thesis by blast
qed

end
